theory Spec2Isabelle
  imports Main
begin

section \<open>Common ground: errors, numbers and strings of the source language\<close>

text \<open>
  Both source files are TypeScript. Every failure in them is \<^verbatim>\<open>throw new Error(msg)\<close>;
  the model returns the thrown value as the left summand of a sum type, carrying the
  message the source builds.
\<close>

datatype error = Error string

text \<open>
  A TypeScript \<^verbatim>\<open>number\<close> holding a length or a bound is modelled as an \<open>int\<close>.
  \<^verbatim>\<open>Number.prototype.toString()\<close> and the template literal \<^verbatim>\<open>${n}\<close> print an integer
  below \<open>10^21\<close> in magnitude in decimal, with a leading minus sign when negative;
  \<open>toString\<close> is that printer.
\<close>

definition digitChar :: "nat \<Rightarrow> char" where
  "digitChar d = char_of (48 + d)"

function natToString :: "nat \<Rightarrow> string" where
  "natToString n =
     (if n < 10 then [digitChar n] else natToString (n div 10) @ [digitChar (n mod 10)])"
  by pat_completeness auto
termination
  by (relation "measure (\<lambda>n. n)") auto

declare natToString.simps [simp del]

definition toString :: "int \<Rightarrow> string" where
  "toString i = (if i < 0 then CHR ''-'' # natToString (nat (- i)) else natToString (nat i))"




text \<open>
  JavaScript truthiness of an optional number: \<^verbatim>\<open>undefined\<close> and \<open>0\<close> are falsy, every
  other integer is truthy.
\<close>

definition truthy :: "int option \<Rightarrow> bool" where
  "truthy v = (case v of None \<Rightarrow> False | Some n \<Rightarrow> n \<noteq> 0)"

text \<open>\<^verbatim>\<open>String.prototype.endsWith\<close>.\<close>

definition endsWith :: "string \<Rightarrow> string \<Rightarrow> bool" where
  "endsWith s sfx = (length sfx \<le> length s \<and> drop (length s - length sfx) s = sfx)"

section \<open>Custom attribute types (the attribute source file)\<close>

record StringAttributeConstraints =
  minLength :: "string option"
  maxLength :: "string option"

record NumberAttributeConstraints =
  minValue :: "string option"
  maxValue :: "string option"

text \<open>
  \<^verbatim>\<open>CustomAttrConfig.constraints\<close> is an open dictionary in the source; the two shapes that
  \<^verbatim>\<open>bind()\<close> builds are its two constructors here.
\<close>

datatype Constraints =
  StringAttributeConstraintsOf StringAttributeConstraints
| NumberAttributeConstraintsOf NumberAttributeConstraints

record CustomAttrConfig =
  attrDataType :: string
  constraints :: "Constraints option"

record StringAttrProps =
  minLen :: "int option"
  maxLen :: "int option"

text \<open>The object state of a \<^verbatim>\<open>StringAttr\<close>: its two private fields.\<close>

datatype StringAttr = StringAttr (this_minLen: "int option") (this_maxLen: "int option")

text \<open>
  \<^verbatim>\<open>StringAttr.constructor\<close>. The guards are \<^verbatim>\<open>props.minLen && props.minLen < 0\<close> and
  \<^verbatim>\<open>props.maxLen && props.maxLen > 2048\<close>: truthiness first, then the comparison.
\<close>

definition StringAttr_constructor :: "StringAttrProps \<Rightarrow> error + StringAttr" where
  "StringAttr_constructor props =
     (if truthy (minLen props) \<and> the (minLen props) < 0 then
        Inl (Error (''minLen cannot be less than 0 (value: '' @ toString (the (minLen props)) @ '').''))
      else if truthy (maxLen props) \<and> the (maxLen props) > 2048 then
        Inl (Error (''maxLen cannot be greater than 2048 (value: '' @ toString (the (maxLen props)) @ '').''))
      else Inr (StringAttr (minLen props) (maxLen props)))"

text \<open>
  \<^verbatim>\<open>StringAttr.bind\<close>. \<^verbatim>\<open>this.minLen?.toString()\<close> is \<^verbatim>\<open>undefined\<close> exactly when the
  field is; the guard of the conditional is \<^verbatim>\<open>(this.minLen || this.maxLen)\<close>.
\<close>

definition StringAttr_bind :: "StringAttr \<Rightarrow> CustomAttrConfig" where
  "StringAttr_bind this =
     (let constraints' = StringAttributeConstraintsOf
            \<lparr> minLength = map_option toString (this_minLen this),
              maxLength = map_option toString (this_maxLen this) \<rparr>
      in \<lparr> attrDataType = ''String'',
           constraints = (if truthy (this_minLen this) \<or> truthy (this_maxLen this)
                          then Some constraints' else None) \<rparr>)"

record NumberAttrProps =
  min_n :: "int option"
  max_n :: "int option"

datatype NumberAttr = NumberAttr (this_min: "int option") (this_max: "int option")

definition NumberAttr_constructor :: "NumberAttrProps \<Rightarrow> NumberAttr" where
  "NumberAttr_constructor props = NumberAttr (min_n props) (max_n props)"


definition BooleanAttr_bind :: CustomAttrConfig where
  "BooleanAttr_bind = \<lparr> attrDataType = ''Boolean'', constraints = None \<rparr>"

definition DateTimeAttr_bind :: CustomAttrConfig where
  "DateTimeAttr_bind = \<lparr> attrDataType = ''DateTime'', constraints = None \<rparr>"

section \<open>Queues (\<^verbatim>\<open>queue.ts\<close>)\<close>

subsection \<open>Data\<close>

text \<open>The enum \<^verbatim>\<open>QueueEncryption\<close> and the string value of each member.\<close>

datatype QueueEncryption = UNENCRYPTED | KMS_MANAGED | KMS

fun encryptionValue :: "QueueEncryption \<Rightarrow> string" where
  "encryptionValue UNENCRYPTED = ''NONE''"
| "encryptionValue KMS_MANAGED = ''MANAGED''"
| "encryptionValue KMS = ''KMS''"

text \<open>
  \<^verbatim>\<open>kms.IKey\<close> and \<^verbatim>\<open>IQueue\<close> are declared outside the two source files; the queue code
  reads one field of each.
\<close>

record IKey =
  keyArn :: string

record IQueue =
  dlq_queueArn :: string

record DeadLetterQueue =
  queue :: IQueue
  maxReceiveCount :: int

text \<open>
  \<^verbatim>\<open>QueueProps\<close>. The type \<open>'d\<close> stands for \<^verbatim>\<open>Duration\<close>, a class of the core library
  whose only use here is \<^verbatim>\<open>toSeconds()\<close>; that method is a parameter \<open>toSeconds\<close> of the
  functions below.
\<close>

record 'd QueueProps =
  queueName :: "string option"
  retentionPeriod :: "'d option"
  deliveryDelay :: "'d option"
  maxMessageSizeBytes :: "int option"
  receiveMessageWaitTime :: "'d option"
  visibilityTimeout :: "'d option"
  deadLetterQueue :: "DeadLetterQueue option"
  encryption :: "QueueEncryption option"
  encryptionMasterKey :: "IKey option"
  dataKeyReuse :: "'d option"
  fifo :: "bool option"
  contentBasedDeduplication :: "bool option"

record FifoProps =
  fifoQueue :: "bool option"
  fp_contentBasedDeduplication :: "bool option"

record EncryptionProps =
  kmsMasterKeyId :: "string option"
  kmsDataKeyReusePeriodSeconds :: "int option"

record RedrivePolicy =
  deadLetterTargetArn :: string
  rp_maxReceiveCount :: int

text \<open>The properties handed to \<^verbatim>\<open>new CfnQueue(this, 'Resource', {...})\<close>.\<close>

record CfnQueueProps =
  cfn_queueName :: string
  cfn_fifoQueue :: "bool option"
  cfn_contentBasedDeduplication :: "bool option"
  cfn_kmsMasterKeyId :: "string option"
  cfn_kmsDataKeyReusePeriodSeconds :: "int option"
  cfn_redrivePolicy :: "RedrivePolicy option"
  cfn_delaySeconds :: "int option"
  cfn_maximumMessageSize :: "int option"
  cfn_messageRetentionPeriod :: "int option"
  cfn_receiveMessageWaitTimeSeconds :: "int option"
  cfn_visibilityTimeout :: "int option"

text \<open>
  Constructing a \<^verbatim>\<open>kms.Key\<close> or a \<^verbatim>\<open>CfnQueue\<close> with \<^verbatim>\<open>this\<close> as scope adds a child to the
  queue construct. The children added so far, in order of creation, are the state that the
  constructor threads; a \<^verbatim>\<open>throw\<close> leaves the children added before it in place.
\<close>

datatype Child =
  KmsKey string
| CfnQueue CfnQueueProps

text \<open>
  What \<^verbatim>\<open>super(scope, id, { physicalName: props.queueName })\<close> leaves in \<^verbatim>\<open>this\<close> and the
  constructor reads back: \<^verbatim>\<open>this.node.path\<close> and \<^verbatim>\<open>this.physicalName\<close>.
\<close>

record Resource =
  node_path :: string
  physicalName :: string

subsection \<open>\<^verbatim>\<open>determineFifoProps\<close>\<close>

text \<open>
  Lines 320 to 323: the value of the local \<^verbatim>\<open>fifoQueue\<close> after the two inference steps.
  \<^verbatim>\<open>Token.isUnresolved\<close> belongs to the core library and is the parameter \<open>isUnresolved\<close>.
  The conjunct \<^verbatim>\<open>queueName\<close> of the first guard is string truthiness: defined and non-empty.
\<close>

definition inferFifoQueue :: "(string \<Rightarrow> bool) \<Rightarrow> 'd QueueProps \<Rightarrow> bool option" where
  "inferFifoQueue isUnresolved props =
     (let fifoQueue = fifo props;
          fifoQueue =
            (if fifoQueue = None \<and>
                (case queueName props of
                   None \<Rightarrow> False
                 | Some n \<Rightarrow> n \<noteq> [] \<and> \<not> isUnresolved n \<and> endsWith n ''.fifo'')
             then Some True else fifoQueue);
          fifoQueue =
            (if fifoQueue = None \<and> contentBasedDeduplication props = Some True
             then Some True else fifoQueue)
      in fifoQueue)"

text \<open>
  The three errors of \<^verbatim>\<open>determineFifoProps\<close>, with the messages of lines 328, 331 and 336
  (\<open>CHR 0x27\<close> is the single quote around \<^verbatim>\<open>.fifo\<close>).
\<close>

definition fifoNameError :: error where
  "fifoNameError = Error (''FIFO queue names must end in '' @ [CHR 0x27] @ ''.fifo'' @ [CHR 0x27])"

definition nonFifoNameError :: error where
  "nonFifoNameError =
     Error (''Non-FIFO queue name may not end in '' @ [CHR 0x27] @ ''.fifo'' @ [CHR 0x27])"

definition dedupError :: error where
  "dedupError = Error ''Content-based deduplication can only be defined for FIFO queues''"

text \<open>
  Lines 325 to 342: the three checks and the returned subset. A \<^verbatim>\<open>boolean | undefined\<close>
  used as a condition is true exactly when it is \<^verbatim>\<open>true\<close>; \<^verbatim>\<open>typeof queueName === 'string'\<close>
  holds exactly when the name is defined.
\<close>

definition checkFifoProps :: "'d QueueProps \<Rightarrow> bool option \<Rightarrow> error + FifoProps" where
  "checkFifoProps props fifoQueue' =
     (case (case queueName props of
              None \<Rightarrow> None
            | Some n \<Rightarrow>
                if fifoQueue' = Some True \<and> \<not> endsWith n ''.fifo''
                  then Some fifoNameError
                else if fifoQueue' \<noteq> Some True \<and> endsWith n ''.fifo''
                  then Some nonFifoNameError
                else None) of
        Some e \<Rightarrow> Inl e
      | None \<Rightarrow>
          if contentBasedDeduplication props = Some True \<and> fifoQueue' \<noteq> Some True
            then Inl dedupError
          else Inr \<lparr> fifoQueue = fifoQueue',
                     fp_contentBasedDeduplication = contentBasedDeduplication props \<rparr>)"

definition determineFifoProps :: "(string \<Rightarrow> bool) \<Rightarrow> 'd QueueProps \<Rightarrow> error + FifoProps" where
  "determineFifoProps isUnresolved props =
     checkFifoProps props (inferFifoQueue isUnresolved props)"

subsection \<open>\<^verbatim>\<open>_determineEncryptionProps\<close>\<close>

text \<open>
  Lines 278 to 282: the effective mode. Every member of the enum is a non-empty string, so
  \<^verbatim>\<open>props.encryption || QueueEncryption.UNENCRYPTED\<close> falls back exactly when the property
  is undefined.
\<close>

definition effectiveEncryption :: "'d QueueProps \<Rightarrow> QueueEncryption" where
  "effectiveEncryption props =
     (let encryption' = (case encryption props of None \<Rightarrow> UNENCRYPTED | Some e \<Rightarrow> e)
      in if encryption' \<noteq> KMS \<and> encryptionMasterKey props \<noteq> None then KMS else encryption')"

record EncryptionResult =
  encryptionProps :: EncryptionProps
  res_encryptionMasterKey :: "IKey option"

text \<open>
  Lines 284 to 311. \<open>kmsKey\<close> stands for the constructor of \<^verbatim>\<open>kms.Key\<close>, of another
  package: from the description it is given, the handle of the key it creates. The creation
  itself is recorded as a new child. The last branch is the guard of line 311, which no
  member of the enum reaches.
\<close>

definition determineEncryptionProps ::
  "('d \<Rightarrow> int) \<Rightarrow> (string \<Rightarrow> IKey) \<Rightarrow> Resource \<Rightarrow> 'd QueueProps \<Rightarrow> Child list
     \<Rightarrow> (error + EncryptionResult) \<times> Child list" where
  "determineEncryptionProps toSeconds kmsKey this props children =
     (let encryption' = effectiveEncryption props in
      if encryption' = UNENCRYPTED then
        (Inr \<lparr> encryptionProps = \<lparr> kmsMasterKeyId = None, kmsDataKeyReusePeriodSeconds = None \<rparr>,
               res_encryptionMasterKey = None \<rparr>, children)
      else if encryption' = KMS_MANAGED then
        (Inr \<lparr> encryptionProps =
                 \<lparr> kmsMasterKeyId = Some ''alias/aws/sqs'',
                   kmsDataKeyReusePeriodSeconds = map_option toSeconds (dataKeyReuse props) \<rparr>,
               res_encryptionMasterKey = None \<rparr>, children)
      else if encryption' = KMS then
        (let description = ''Created by '' @ node_path this;
             (masterKey, children') =
               (case encryptionMasterKey props of
                  Some k \<Rightarrow> (k, children)
                | None \<Rightarrow> (kmsKey description, children @ [KmsKey description]))
         in (Inr \<lparr> encryptionProps =
                     \<lparr> kmsMasterKeyId = Some (keyArn masterKey),
                       kmsDataKeyReusePeriodSeconds = map_option toSeconds (dataKeyReuse props) \<rparr>,
                   res_encryptionMasterKey = Some masterKey \<rparr>, children'))
      else
        (Inl (Error (''Unexpected '' @ [CHR 0x27] @ ''encryptionType'' @ [CHR 0x27] @ '': ''
                       @ encryptionValue encryption')), children))"

subsection \<open>The constructor of \<^verbatim>\<open>Queue\<close>\<close>

text \<open>
  The fields of the new queue that the constructor computes itself. \<^verbatim>\<open>queueArn\<close>,
  \<^verbatim>\<open>queueName\<close> and \<^verbatim>\<open>queueUrl\<close> are attributes of the \<^verbatim>\<open>CfnQueue\<close> passed through
  methods of the base class and are left out.
\<close>

record Queue =
  q_fifo :: bool
  q_encryptionMasterKey :: "IKey option"

text \<open>
  Lines 238 to 275, in the order of the source: \<^verbatim>\<open>validateProps\<close> (of another file, a
  parameter: the error it throws, if any), the redrive policy, the encryption properties,
  then the FIFO properties, then the \<^verbatim>\<open>CfnQueue\<close>. The spread of \<^verbatim>\<open>fifoProps\<close> and
  \<^verbatim>\<open>encryptionProps\<close> copies their fields.
\<close>

definition Queue_constructor ::
  "(string \<Rightarrow> bool) \<Rightarrow> ('d QueueProps \<Rightarrow> error option) \<Rightarrow> ('d \<Rightarrow> int) \<Rightarrow> (string \<Rightarrow> IKey)
     \<Rightarrow> Resource \<Rightarrow> 'd QueueProps \<Rightarrow> Child list \<Rightarrow> (error + Queue) \<times> Child list" where
  "Queue_constructor isUnresolved validateProps toSeconds kmsKey this props children =
     (case validateProps props of
        Some e \<Rightarrow> (Inl e, children)
      | None \<Rightarrow>
          let redrivePolicy =
                map_option
                  (\<lambda>d. \<lparr> deadLetterTargetArn = dlq_queueArn (queue d),
                         rp_maxReceiveCount = maxReceiveCount d \<rparr>)
                  (deadLetterQueue props)
          in case determineEncryptionProps toSeconds kmsKey this props children of
               (Inl e, children') \<Rightarrow> (Inl e, children')
             | (Inr enc, children') \<Rightarrow>
                 (case determineFifoProps isUnresolved props of
                    Inl e \<Rightarrow> (Inl e, children')
                  | Inr fifoProps \<Rightarrow>
                      (Inr \<lparr> q_fifo = (fifoQueue fifoProps = Some True),
                             q_encryptionMasterKey = res_encryptionMasterKey enc \<rparr>,
                       children' @
                       [CfnQueue
                          \<lparr> cfn_queueName = physicalName this,
                            cfn_fifoQueue = fifoQueue fifoProps,
                            cfn_contentBasedDeduplication = fp_contentBasedDeduplication fifoProps,
                            cfn_kmsMasterKeyId = kmsMasterKeyId (encryptionProps enc),
                            cfn_kmsDataKeyReusePeriodSeconds =
                              kmsDataKeyReusePeriodSeconds (encryptionProps enc),
                            cfn_redrivePolicy = redrivePolicy,
                            cfn_delaySeconds = map_option toSeconds (deliveryDelay props),
                            cfn_maximumMessageSize = maxMessageSizeBytes props,
                            cfn_messageRetentionPeriod =
                              map_option toSeconds (retentionPeriod props),
                            cfn_receiveMessageWaitTimeSeconds =
                              map_option toSeconds (receiveMessageWaitTime props),
                            cfn_visibilityTimeout =
                              map_option toSeconds (visibilityTimeout props) \<rparr>])))"

subsection \<open>\<^verbatim>\<open>fromQueueAttributes\<close>\<close>

text \<open>\<^verbatim>\<open>QueueAttributes\<close> (declared with the base class) and the fields read of the stack.\<close>

record QueueAttributes =
  attrs_queueArn :: string
  attrs_queueUrl :: "string option"
  attrs_queueName :: "string option"
  attrs_keyArn :: "string option"

record Stack =
  region :: string
  urlSuffix :: string
  account :: string

record Import =
  queueArn :: string
  queueUrl :: string
  imp_queueName :: string
  imp_encryptionMasterKey :: "IKey option"
  imp_fifo :: bool
  autoCreatePolicy :: bool

text \<open>
  JavaScript's \<^verbatim>\<open>a || b\<close> on an optional string: \<^verbatim>\<open>b\<close> is taken when \<^verbatim>\<open>a\<close> is undefined
  or empty.
\<close>

definition orElse :: "string option \<Rightarrow> string \<Rightarrow> string" where
  "orElse a b = (case a of None \<Rightarrow> b | Some x \<Rightarrow> if x = [] then b else x)"

text \<open>
  Lines 191 to 209. \<open>parseArnResource\<close> stands for \<^verbatim>\<open>stack.parseArn(arn).resource\<close>, of the
  core library. \<^verbatim>\<open>kms.Key.fromKeyArn\<close> yields a handle on the key of the given ARN.
\<close>

definition fromQueueAttributes ::
  "(string \<Rightarrow> string) \<Rightarrow> Stack \<Rightarrow> QueueAttributes \<Rightarrow> Import" where
  "fromQueueAttributes parseArnResource stack attrs =
     (let queueName' = orElse (attrs_queueName attrs) (parseArnResource (attrs_queueArn attrs));
          queueUrl' = orElse (attrs_queueUrl attrs)
                        (''https://sqs.'' @ region stack @ ''.'' @ urlSuffix stack @ ''/''
                           @ account stack @ ''/'' @ queueName')
      in \<lparr> queueArn = attrs_queueArn attrs,
           queueUrl = queueUrl',
           imp_queueName = queueName',
           imp_encryptionMasterKey =
             (case attrs_keyArn attrs of
                None \<Rightarrow> None
              | Some a \<Rightarrow> if a = [] then None else Some \<lparr> keyArn = a \<rparr>),
           imp_fifo = (if endsWith queueName' ''.fifo'' then True else False),
           autoCreatePolicy = False \<rparr>)"

definition fromQueueArn :: "(string \<Rightarrow> string) \<Rightarrow> Stack \<Rightarrow> string \<Rightarrow> Import" where
  "fromQueueArn parseArnResource stack queueArn' =
     fromQueueAttributes parseArnResource stack
       \<lparr> attrs_queueArn = queueArn', attrs_queueUrl = None, attrs_queueName = None,
         attrs_keyArn = None \<rparr>"

text \<open>
  Modelled from the spec: \<^verbatim>\<open>parseArn\<close> is not among the source files; the specification
  speaks of "the ARN's resource segment". In an ARN
  \<^verbatim>\<open>arn:partition:service:region:account:resource\<close> that is what follows the fifth colon.
\<close>

fun afterColons :: "nat \<Rightarrow> string \<Rightarrow> string" where
  "afterColons 0 s = s"
| "afterColons (Suc n) [] = []"
| "afterColons (Suc n) (c # cs) =
     (if c = CHR '':'' then afterColons n cs else afterColons (Suc n) cs)"

definition arnResource :: "string \<Rightarrow> string" where
  "arnResource arn = afterColons 5 arn"

section \<open>Sample collaborators and inputs for the worked examples\<close>

text \<open>
  The functions above take what the source imports from other packages as parameters. The
  worked examples below fix them: a deployment in which no string is a placeholder, one in
  which the strings that start with the token marker are, a \<^verbatim>\<open>validateProps\<close> that accepts,
  durations given in seconds, and a \<^verbatim>\<open>kms.Key\<close> whose ARN names its description.
\<close>

definition noPlaceholder :: "string \<Rightarrow> bool" where
  "noPlaceholder s = False"

definition markerPlaceholder :: "string \<Rightarrow> bool" where
  "markerPlaceholder s = (take 8 s = ''${Token['')"

definition acceptProps :: "int QueueProps \<Rightarrow> error option" where
  "acceptProps props = None"

definition inSeconds :: "int \<Rightarrow> int" where
  "inSeconds d = d"

definition createdKey :: "string \<Rightarrow> IKey" where
  "createdKey description = \<lparr> keyArn = ''arn:aws:kms:::key/'' @ description \<rparr>"

text \<open>\<^verbatim>\<open>new Queue(scope, id, {})\<close>: every property undefined.\<close>

definition noProps :: "int QueueProps" where
  "noProps =
     \<lparr> queueName = None, retentionPeriod = None, deliveryDelay = None,
       maxMessageSizeBytes = None, receiveMessageWaitTime = None, visibilityTimeout = None,
       deadLetterQueue = None, encryption = None, encryptionMasterKey = None,
       dataKeyReuse = None, fifo = None, contentBasedDeduplication = None \<rparr>"

text \<open>
  The queue construct after \<^verbatim>\<open>super(scope, id, { physicalName })\<close> in a stack named
  \<^verbatim>\<open>Stack\<close>, under the id \<^verbatim>\<open>Queue\<close>, with the given physical name.
\<close>

definition thisQueue :: "string \<Rightarrow> Resource" where
  "thisQueue name = \<lparr> node_path = ''Stack/Queue'', physicalName = name \<rparr>"

section \<open>Properties of the custom attribute types\<close>

subsection \<open>The decimal printer\<close>











subsection \<open>Construction of a string attribute\<close>



subsection \<open>Binding a string attribute whose only bound is zero\<close>

text \<open>
  Claim C6. The claim asks that a bound set to 0 still produces a constraints sub-object.
  At \<^verbatim>\<open>new StringAttr({ minLen: 0 })\<close> the constructor accepts, and \<^verbatim>\<open>bind()\<close> returns
  the data type \<^verbatim>\<open>String\<close> with no constraints at all: the guard
  \<^verbatim>\<open>(this.minLen || this.maxLen)\<close> takes the number 0 for an absent bound, although
  \<^verbatim>\<open>this.minLen?.toString()\<close> two lines above would have printed it.
\<close>

theorem StringAttr_bind_zero_bound:
  "StringAttr_constructor \<lparr> minLen = Some 0, maxLen = None \<rparr> = Inr (StringAttr (Some 0) None)
   \<and> StringAttr_bind (StringAttr (Some 0) None) = \<lparr> attrDataType = ''String'', constraints = None \<rparr>"
  by (simp add: StringAttr_constructor_def StringAttr_bind_def truthy_def)

subsection \<open>Bounds are emitted as decimal strings\<close>



section \<open>Properties of queue resolution\<close>

subsection \<open>Auxiliary facts\<close>

lemma fifo_errors_distinct:
  "fifoNameError \<noteq> nonFifoNameError" "fifoNameError \<noteq> dedupError" "nonFifoNameError \<noteq> dedupError"
  by (simp_all add: fifoNameError_def nonFifoNameError_def dedupError_def)






subsection \<open>FIFO flag against the name suffix\<close>



subsection \<open>FIFO inferred from the name\<close>



subsection \<open>Content-based deduplication\<close>

text \<open>
  Claim C3, as stated, at the input \<^verbatim>\<open>{ contentBasedDeduplication: true }\<close>: \<open>fifo\<close> is
  unset and there is no name to force it, yet line 323 infers \<^verbatim>\<open>fifoQueue = true\<close> from the
  deduplication flag, no check fires, and the constructor returns a FIFO queue.
\<close>

theorem dedup_without_fifo_counterexample:
  "determineFifoProps noPlaceholder (noProps\<lparr> contentBasedDeduplication := Some True \<rparr>) =
     Inr \<lparr> fifoQueue = Some True, fp_contentBasedDeduplication = Some True \<rparr>
   \<and> Queue_constructor noPlaceholder acceptProps inSeconds createdKey (thisQueue ''orders'')
        (noProps\<lparr> contentBasedDeduplication := Some True \<rparr>) [] =
     (Inr \<lparr> q_fifo = True, q_encryptionMasterKey = None \<rparr>,
      [CfnQueue \<lparr> cfn_queueName = ''orders'', cfn_fifoQueue = Some True,
                  cfn_contentBasedDeduplication = Some True, cfn_kmsMasterKeyId = None,
                  cfn_kmsDataKeyReusePeriodSeconds = None, cfn_redrivePolicy = None,
                  cfn_delaySeconds = None, cfn_maximumMessageSize = None,
                  cfn_messageRetentionPeriod = None, cfn_receiveMessageWaitTimeSeconds = None,
                  cfn_visibilityTimeout = None \<rparr>])"
  by (simp add: determineFifoProps_def checkFifoProps_def inferFifoQueue_def noProps_def
        Queue_constructor_def determineEncryptionProps_def effectiveEncryption_def
        acceptProps_def thisQueue_def)

text \<open>
  Claim C3, amended. With \<open>contentBasedDeduplication\<close> true: when \<open>fifo\<close> is explicitly
  false, \<^verbatim>\<open>determineFifoProps\<close> throws (the name-mismatch error or the deduplication
  error); when \<open>fifo\<close> is unset it is inferred true, so the call returns with
  \<^verbatim>\<open>fifoQueue\<close> true if there is no name or the name ends in \<^verbatim>\<open>.fifo\<close>, and throws the
  FIFO name error if a concrete name not ending in \<^verbatim>\<open>.fifo\<close> is given.
\<close>

theorem dedup_fifo_rules:
  assumes "contentBasedDeduplication props = Some True"
  shows "(fifo props = Some False \<longrightarrow>
            determineFifoProps isUnresolved props = Inl nonFifoNameError
            \<or> determineFifoProps isUnresolved props = Inl dedupError)
       \<and> (fifo props = None \<and> (queueName props = None \<or> (\<exists>n. queueName props = Some n \<and> endsWith n ''.fifo'')) \<longrightarrow>
            determineFifoProps isUnresolved props =
              Inr \<lparr> fifoQueue = Some True, fp_contentBasedDeduplication = Some True \<rparr>)
       \<and> (fifo props = None \<and> queueName props = Some n \<and> \<not> isUnresolved n \<and> \<not> endsWith n ''.fifo'' \<longrightarrow>
            determineFifoProps isUnresolved props = Inl fifoNameError)"
  using assms
  by (auto simp: determineFifoProps_def checkFifoProps_def inferFifoQueue_def
           split: option.splits)

theorem dedup_fifo_rules_witness:
  "determineFifoProps noPlaceholder
     (noProps\<lparr> fifo := Some False, contentBasedDeduplication := Some True \<rparr>) = Inl dedupError
   \<and> determineFifoProps noPlaceholder (noProps\<lparr> contentBasedDeduplication := Some True \<rparr>) =
       Inr \<lparr> fifoQueue = Some True, fp_contentBasedDeduplication = Some True \<rparr>
   \<and> determineFifoProps noPlaceholder
       (noProps\<lparr> queueName := Some ''orders'', contentBasedDeduplication := Some True \<rparr>) =
       Inl fifoNameError"
  using dedup_fifo_rules
          [of "noProps\<lparr> fifo := Some False, contentBasedDeduplication := Some True \<rparr>" noPlaceholder]
        dedup_fifo_rules
          [of "noProps\<lparr> contentBasedDeduplication := Some True \<rparr>" noPlaceholder]
        dedup_fifo_rules
          [of "noProps\<lparr> queueName := Some ''orders'', contentBasedDeduplication := Some True \<rparr>"
              noPlaceholder "''orders''"]
        fifo_errors_distinct
  by (simp add: noProps_def noPlaceholder_def endsWith_def determineFifoProps_def checkFifoProps_def inferFifoQueue_def)

subsection \<open>Placeholder names\<close>

text \<open>
  Claim C4. The claim asks that no suffix error be raised for a name that is a late-bound
  placeholder. At the name \<^verbatim>\<open>${Token[TOKEN.10]}\<close>, which the placeholder test accepts,
  with \<open>fifo\<close> explicitly true, \<^verbatim>\<open>determineFifoProps\<close> throws the FIFO name error and
  the constructor fails with it: the inference of line 322 asks \<^verbatim>\<open>Token.isUnresolved\<close>,
  the check of line 326 asks only \<^verbatim>\<open>typeof queueName === 'string'\<close>, which holds of the
  string encoding of a placeholder.
\<close>

theorem placeholder_name_suffix_checked:
  "markerPlaceholder ''${Token[TOKEN.10]}''
   \<and> determineFifoProps markerPlaceholder
       (noProps\<lparr> queueName := Some ''${Token[TOKEN.10]}'', fifo := Some True \<rparr>) = Inl fifoNameError
   \<and> fst (Queue_constructor markerPlaceholder acceptProps inSeconds createdKey
            (thisQueue ''${Token[TOKEN.10]}'')
            (noProps\<lparr> queueName := Some ''${Token[TOKEN.10]}'', fifo := Some True \<rparr>) [])
       = Inl fifoNameError"
  by (simp add: markerPlaceholder_def determineFifoProps_def checkFifoProps_def inferFifoQueue_def
        noProps_def endsWith_def Queue_constructor_def determineEncryptionProps_def
        effectiveEncryption_def acceptProps_def)

subsection \<open>A supplied key implies customer-managed encryption\<close>



subsection \<open>Importing a queue by its ARN\<close>

text \<open>
  Claim C8, as stated, in a stack of region \<^verbatim>\<open>eu-west-1\<close> and account
  \<^verbatim>\<open>111111111111\<close>: the URL derived for the ARN
  \<^verbatim>\<open>arn:aws:sqs:us-east-1:123456789012:myqueue\<close> carries the region and the account of
  the stack, not those written in the ARN.
\<close>

theorem import_url_counterexample:
  "queueUrl (fromQueueArn arnResource
      \<lparr> region = ''eu-west-1'', urlSuffix = ''amazonaws.com'', account = ''111111111111'' \<rparr>
      ''arn:aws:sqs:us-east-1:123456789012:myqueue'')
     = ''https://sqs.eu-west-1.amazonaws.com/111111111111/myqueue''
   \<and> queueUrl (fromQueueArn arnResource
      \<lparr> region = ''eu-west-1'', urlSuffix = ''amazonaws.com'', account = ''111111111111'' \<rparr>
      ''arn:aws:sqs:us-east-1:123456789012:myqueue'')
     \<noteq> ''https://sqs.us-east-1.amazonaws.com/123456789012/myqueue''"
  by (simp add: fromQueueArn_def fromQueueAttributes_def orElse_def arnResource_def
        eval_nat_numeral Let_def)

lemma arnResource_myqueue:
  "arnResource ''arn:aws:sqs:us-east-1:123456789012:myqueue'' = ''myqueue''"
  by (simp add: arnResource_def eval_nat_numeral)

text \<open>
  Claim C8, amended. Given only an ARN, the name is the resource segment of the ARN, the
  URL is \<^verbatim>\<open>https://sqs.<region>.<url-suffix>/<account>/<name>\<close> with the region, URL
  suffix and account of the importing stack, \<open>fifo\<close> is true exactly when the name ends
  in \<^verbatim>\<open>.fifo\<close>, and the ARN is kept. In particular, in a stack of region
  \<^verbatim>\<open>us-east-1\<close> and account \<^verbatim>\<open>123456789012\<close>, the ARN
  \<^verbatim>\<open>arn:aws:sqs:us-east-1:123456789012:myqueue\<close> yields the name \<^verbatim>\<open>myqueue\<close>,
  \<open>fifo\<close> false and the URL \<^verbatim>\<open>https://sqs.us-east-1.<url-suffix>/123456789012/myqueue\<close>.
\<close>

theorem import_from_arn:
  "(attrs_queueName attrs = None \<and> attrs_queueUrl attrs = None \<longrightarrow>
      imp_queueName (fromQueueAttributes parseArnResource stack attrs)
        = parseArnResource (attrs_queueArn attrs)
      \<and> queueUrl (fromQueueAttributes parseArnResource stack attrs)
        = ''https://sqs.'' @ region stack @ ''.'' @ urlSuffix stack @ ''/'' @ account stack @ ''/''
            @ parseArnResource (attrs_queueArn attrs)
      \<and> imp_fifo (fromQueueAttributes parseArnResource stack attrs)
        = endsWith (parseArnResource (attrs_queueArn attrs)) ''.fifo''
      \<and> queueArn (fromQueueAttributes parseArnResource stack attrs) = attrs_queueArn attrs)
   \<and> (region stack = ''us-east-1'' \<and> account stack = ''123456789012'' \<longrightarrow>
        fromQueueArn arnResource stack ''arn:aws:sqs:us-east-1:123456789012:myqueue'' =
          \<lparr> queueArn = ''arn:aws:sqs:us-east-1:123456789012:myqueue'',
            queueUrl = ''https://sqs.us-east-1.'' @ urlSuffix stack @ ''/123456789012/myqueue'',
            imp_queueName = ''myqueue'',
            imp_encryptionMasterKey = None,
            imp_fifo = False,
            autoCreatePolicy = False \<rparr>)"
  by (simp add: fromQueueArn_def fromQueueAttributes_def orElse_def arnResource_myqueue
        endsWith_def Let_def)

theorem import_from_arn_witness:
  "fromQueueArn arnResource
     \<lparr> region = ''us-east-1'', urlSuffix = ''amazonaws.com'', account = ''123456789012'' \<rparr>
     ''arn:aws:sqs:us-east-1:123456789012:myqueue'' =
     \<lparr> queueArn = ''arn:aws:sqs:us-east-1:123456789012:myqueue'',
       queueUrl = ''https://sqs.us-east-1.amazonaws.com/123456789012/myqueue'',
       imp_queueName = ''myqueue'',
       imp_encryptionMasterKey = None,
       imp_fifo = False,
       autoCreatePolicy = False \<rparr>
   \<and> imp_queueName (fromQueueAttributes arnResource
        \<lparr> region = ''us-east-1'', urlSuffix = ''amazonaws.com'', account = ''123456789012'' \<rparr>
        \<lparr> attrs_queueArn = ''arn:aws:sqs:us-east-1:123456789012:myqueue'', attrs_queueUrl = None,
          attrs_queueName = None, attrs_keyArn = None \<rparr>) = ''myqueue''"
  using import_from_arn
          [of "\<lparr> attrs_queueArn = ''arn:aws:sqs:us-east-1:123456789012:myqueue'', attrs_queueUrl = None,
                 attrs_queueName = None, attrs_keyArn = None \<rparr>"
              arnResource
              "\<lparr> region = ''us-east-1'', urlSuffix = ''amazonaws.com'', account = ''123456789012'' \<rparr>"]
  by (simp add: arnResource_myqueue)

subsection \<open>What a failed construction leaves behind\<close>




end
